theory Spec2Isabelle
  imports Complex_Main
begin

section \<open>Numbers and exceptions\<close>

text \<open>
  Python and numpy floats are idealised: a finite float is an exact real, and the one
  special value the code produces and tests for, NaN, is a constructor of its own.
  Rounding and overflow are not modelled, so no arithmetic on finite values yields an
  infinity.  Comparisons with NaN are false, as in IEEE arithmetic.
\<close>

datatype fval = Fin real | NaN

datatype py_error = KeyError | IndexError | ValueError | TypeError

fun isnan :: "fval \<Rightarrow> bool" where
  "isnan NaN = True"
| "isnan (Fin _) = False"

text \<open>\<open>math.isinf\<close>: exact arithmetic on finite values never overflows.\<close>

fun isinf :: "fval \<Rightarrow> bool" where
  "isinf NaN = False"
| "isinf (Fin _) = False"

fun fsub :: "fval \<Rightarrow> fval \<Rightarrow> fval" where
  "fsub (Fin a) (Fin b) = Fin (a - b)"
| "fsub _ _ = NaN"

text \<open>Every division of the program is guarded by a test of the divisor against zero.\<close>

fun fdiv :: "fval \<Rightarrow> fval \<Rightarrow> fval" where
  "fdiv (Fin a) (Fin b) = (if b = 0 then NaN else Fin (a / b))"
| "fdiv _ _ = NaN"

text \<open>\<open>x == 0\<close>\<close>

fun is_zero :: "fval \<Rightarrow> bool" where
  "is_zero (Fin a) = (a = 0)"
| "is_zero NaN = False"

text \<open>\<open>abs(x) > t\<close> for a finite threshold \<open>t\<close>\<close>

fun abs_gt :: "fval \<Rightarrow> real \<Rightarrow> bool" where
  "abs_gt (Fin a) t = (\<bar>a\<bar> > t)"
| "abs_gt NaN t = False"

text \<open>\<open>x < y\<close> and \<open>x > y\<close>\<close>

fun flt :: "fval \<Rightarrow> fval \<Rightarrow> bool" where
  "flt (Fin a) (Fin b) = (a < b)"
| "flt _ _ = False"

definition fgt :: "fval \<Rightarrow> fval \<Rightarrow> bool" where
  "fgt x y = flt y x"

text \<open>Python's \<open>round\<close> to an integer rounds a tie to the even neighbour.\<close>

definition py_round :: "real \<Rightarrow> int" where
  "py_round x =
     (let f = \<lfloor>x\<rfloor>; d = x - of_int f
      in if d < 1 / 2 then f
         else if d > 1 / 2 then f + 1
         else if even f then f else f + 1)"

section \<open>Live threshold store\<close>

text \<open>
  The configuration is the JSON object of \<open>config.json\<close>; \<open>ConfigManager.get\<close> returns
  the stored value or the caller's default when the key is missing.
\<close>

record config =
  sigma_thresh :: "real option"
  zscore_trend_thresh :: "real option"
  lambda_multiplier :: "(string \<rightharpoonup> real) option"

definition get_or :: "'a option \<Rightarrow> 'a \<Rightarrow> 'a" where
  "get_or v d = (case v of None \<Rightarrow> d | Some x \<Rightarrow> x)"

definition default_lambda_multipliers :: "string \<rightharpoonup> real" where
  "default_lambda_multipliers = [''1Min'' \<mapsto> 12, ''1Day'' \<mapsto> 436 / 10000]"

section \<open>Symbol series\<close>

text \<open>A row of the historical frame is the date of its timestamp and its close.\<close>

record SymbolData =
  symbol :: string
  historical_data :: "(nat \<times> fval) list"
  baseline_prices :: "fval list option"
  baseline_mean :: fval
  baseline_std :: fval
  full_prices :: "fval list"
  timeframe :: string

section \<open>Anomaly detector\<close>

text \<open>
  The Hodrick-Prescott filter, \<open>scipy.stats.zscore\<close> and \<open>scipy.signal.find_peaks\<close> are
  library calls.  Their outcome on a close sequence and a smoothing coefficient is a
  parameter of the detector: an exception, or the column \<open>zscore_trend\<close> of the frame
  and the index arrays that \<open>find_peaks\<close> returns for the cycle and for its negation.
\<close>

record analysis =
  zscore_trend_col :: "fval list"
  peaks_idx :: "nat list"
  troughs_idx :: "nat list"

type_synonym numlib = "int \<Rightarrow> fval list \<Rightarrow> py_error + analysis"

text \<open>The frame that \<open>get_last_action\<close> reads: the closes and the two marker columns.\<close>

record frame =
  c :: "fval list"
  peaks :: "fval list"
  troughs :: "fval list"

record last_action_t =
  la_type :: string
  la_price :: fval
  la_samples_ago :: "nat option"

text \<open>
  \<open>df.iloc[idx]\<close> raises IndexError for a position outside the frame; assigning a series
  whose index has duplicates raises ValueError.  The assigned column holds the close at
  each listed position and NaN elsewhere.
\<close>

definition marker_col :: "fval list \<Rightarrow> nat list \<Rightarrow> py_error + fval list" where
  "marker_col cs idx =
     (if \<not> (\<forall>i \<in> set idx. i < length cs) then Inl IndexError
      else if \<not> distinct idx then Inl ValueError
      else Inr (map (\<lambda>i. if i \<in> set idx then cs ! i else NaN) [0..<length cs]))"

text \<open>\<open>col.dropna()\<close>: the labels of the rows that are not NaN, in frame order.\<close>

definition dropna_index :: "fval list \<Rightarrow> nat list" where
  "dropna_index col = filter (\<lambda>i. \<not> isnan (col ! i)) [0..<length col]"

definition get_last_action :: "frame \<Rightarrow> last_action_t" where
  "get_last_action data =
     (let pk = dropna_index (peaks data);
          tr = dropna_index (troughs data)
      in if tr = [] \<and> pk = [] then
           \<lparr>la_type = ''None'', la_price = Fin 0, la_samples_ago = None\<rparr>
         else
           (let (last_action, action_type) =
                  (if pk \<noteq> [] \<and> (tr = [] \<or> last pk > last tr)
                   then (last pk, ''Sell'')
                   else (last tr, ''Buy''))
            in \<lparr>la_type = action_type,
                la_price = c data ! last_action,
                la_samples_ago = Some (length (c data) - last_action - 1)\<rparr>))"

record processed =
  p_lambda :: int
  p_zscore_trend :: "fval list option"
  p_action :: string
  p_price :: fval
  p_samples_ago :: "nat option"

text \<open>The smoothing coefficient of \<open>process_data\<close> for a sample count.\<close>

definition smoothing_coefficient :: "config \<Rightarrow> SymbolData \<Rightarrow> nat \<Rightarrow> int" where
  "smoothing_coefficient cfg data n =
     (let lambda_multipliers = get_or (lambda_multiplier cfg) default_lambda_multipliers;
          multiplier = get_or (lambda_multipliers (timeframe data)) 12
      in py_round (multiplier * real n))"

definition process_data :: "numlib \<Rightarrow> config \<Rightarrow> SymbolData \<Rightarrow> fval \<Rightarrow> py_error + processed" where
  "process_data lib cfg data new_price =
     (let prices = full_prices data @ [new_price];
          num_samples = length prices;
          lamb = smoothing_coefficient cfg data num_samples
      in case lib lamb prices of
           Inl e \<Rightarrow> Inl e
         | Inr a \<Rightarrow>
             (case marker_col prices (peaks_idx a) of
                Inl e \<Rightarrow> Inl e
              | Inr pcol \<Rightarrow>
                  (case marker_col prices (troughs_idx a) of
                     Inl e \<Rightarrow> Inl e
                   | Inr tcol \<Rightarrow>
                       (let last_action =
                              get_last_action \<lparr>c = prices, peaks = pcol, troughs = tcol\<rparr>
                        in Inr \<lparr>p_lambda = lamb,
                                p_zscore_trend =
                                  (if zscore_trend_col a \<noteq> []
                                   then Some (zscore_trend_col a) else None),
                                p_action = la_type last_action,
                                p_price = la_price last_action,
                                p_samples_ago = la_samples_ago last_action\<rparr>))))"

text \<open>
  The result dictionary: three keys are always present, the others are added together
  when the sigma threshold is crossed.
\<close>

record enrichment =
  e_symbol :: string
  num_samples :: nat
  lambda :: int
  action :: string
  price :: fval
  current_price :: fval
  samples_ago :: "nat option"
  zscore_trend :: "fval option"
  zscore_trend_alert :: bool

record result =
  zscore :: fval
  alert :: bool
  latest_price :: fval
  enriched :: "enrichment option"

text \<open>The z-score of a price against the baseline, the first statement of \<open>process\<close>.\<close>

definition zscore_value :: "SymbolData \<Rightarrow> fval \<Rightarrow> fval" where
  "zscore_value data new_price =
     (if is_zero (baseline_std data) then NaN
      else fdiv (fsub new_price (baseline_mean data)) (baseline_std data))"

definition process :: "numlib \<Rightarrow> config \<Rightarrow> SymbolData \<Rightarrow> fval \<Rightarrow> py_error + result" where
  "process lib cfg data new_price =
     (let zscore_value = zscore_value data new_price;
          sigma = get_or (sigma_thresh cfg) 30;
          trend_thresh = get_or (zscore_trend_thresh cfg) 2;
          res = \<lparr>zscore = zscore_value,
                 alert = (if \<not> isnan zscore_value then abs_gt zscore_value sigma else False),
                 latest_price = new_price,
                 enriched = None\<rparr>
      in if abs_gt (zscore res) sigma then
           (case process_data lib cfg data new_price of
              Inl e \<Rightarrow> Inl e
            | Inr pd \<Rightarrow>
                (let zt = (case p_zscore_trend pd of
                             None \<Rightarrow> None
                           | Some col \<Rightarrow> Some (last col))
                 in Inr (res\<lparr>enriched := Some
                      \<lparr>e_symbol = symbol data,
                       num_samples = length (full_prices data),
                       lambda = p_lambda pd,
                       action = p_action pd,
                       price = p_price pd,
                       current_price = new_price,
                       samples_ago = p_samples_ago pd,
                       zscore_trend = zt,
                       zscore_trend_alert =
                         (case zt of None \<Rightarrow> False | Some t \<Rightarrow> abs_gt t trend_thresh)\<rparr>\<rparr>)))
         else Inr res)"

subsection \<open>A concrete evaluation\<close>

text \<open>
  A series with baseline mean 100 and standard deviation 2 under a sigma threshold of 3,
  and a library outcome with one peak at position 1 and one trough at position 2.
\<close>

definition example_lib :: numlib where
  "example_lib l ps =
     Inr \<lparr>zscore_trend_col = [Fin 0, Fin (5 / 2)], peaks_idx = [1], troughs_idx = [2]\<rparr>"

definition example_series :: SymbolData where
  "example_series =
     \<lparr>symbol = ''AAPL'', historical_data = [], baseline_prices = None,
      baseline_mean = Fin 100, baseline_std = Fin 2,
      full_prices = [Fin 100, Fin 102, Fin 98], timeframe = ''1Min''\<rparr>"

definition flat_series :: SymbolData where
  "flat_series = example_series\<lparr>baseline_std := Fin 0\<rparr>"

definition hourly_series :: SymbolData where
  "hourly_series = example_series\<lparr>timeframe := ''1Hour''\<rparr>"

definition example_config :: config where
  "example_config =
     \<lparr>sigma_thresh = Some 3, zscore_trend_thresh = None, lambda_multiplier = None\<rparr>"

section \<open>Detection over a batch\<close>

text \<open>
  \<open>new_prices\<close> is a dictionary from symbol to price, kept in insertion order.  The
  single-threaded loop of \<open>DataStreamManager.process_data\<close> evaluates each series whose
  symbol has a new price; an exception of one evaluation ends the loop.
\<close>

type_synonym prices = "(string \<times> fval) list"

fun process_sequential ::
  "numlib \<Rightarrow> config \<Rightarrow> SymbolData list \<Rightarrow> prices \<Rightarrow> py_error + result list" where
  "process_sequential lib cfg [] new_prices = Inr []"
| "process_sequential lib cfg (symbol_data # rest) new_prices =
     (case map_of new_prices (symbol symbol_data) of
        None \<Rightarrow> process_sequential lib cfg rest new_prices
      | Some new_price \<Rightarrow>
          (case process lib cfg symbol_data new_price of
             Inl e \<Rightarrow> Inl e
           | Inr r \<Rightarrow>
               (case process_sequential lib cfg rest new_prices of
                  Inl e \<Rightarrow> Inl e
                | Inr rs \<Rightarrow> Inr (r # rs))))"

subsection \<open>Parallel fan-out\<close>

text \<open>
  \<open>numpy.array_split\<close> with a section count: a count below one raises ValueError;
  otherwise the first \<open>len mod n\<close> sections have \<open>len div n + 1\<close> elements and the others
  \<open>len div n\<close>, cut from the sequence in order.
\<close>

fun split_sizes :: "nat list \<Rightarrow> 'a list \<Rightarrow> 'a list list" where
  "split_sizes [] xs = []"
| "split_sizes (k # ks) xs = take k xs # split_sizes ks (drop k xs)"

definition array_split :: "'a list \<Rightarrow> nat \<Rightarrow> py_error + 'a list list" where
  "array_split ary nsections =
     (if nsections = 0 then Inl ValueError
      else
        (let neach = length ary div nsections;
             extras = length ary mod nsections;
             section_sizes = replicate extras (neach + 1) @ replicate (nsections - extras) neach
         in Inr (split_sizes section_sizes ary)))"

text \<open>\<open>ParallelProcessor._process_chunk\<close>, the work of one pool task.\<close>

fun process_chunk ::
  "numlib \<Rightarrow> config \<Rightarrow> SymbolData list \<Rightarrow> prices \<Rightarrow> py_error + result list" where
  "process_chunk lib cfg [] new_prices = Inr []"
| "process_chunk lib cfg (symbol_data # rest) new_prices =
     (case map_of new_prices (symbol symbol_data) of
        None \<Rightarrow> process_chunk lib cfg rest new_prices
      | Some new_price \<Rightarrow>
          (case process lib cfg symbol_data new_price of
             Inl e \<Rightarrow> Inl e
           | Inr r \<Rightarrow>
               (case process_chunk lib cfg rest new_prices of
                  Inl e \<Rightarrow> Inl e
                | Inr rs \<Rightarrow> Inr (r # rs))))"

text \<open>
  \<open>pool.map\<close> returns the task results in task order.  The tasks receive their arguments
  by value; how the pool serialises them is not modelled.  When tasks raise, one of their
  exceptions is raised in the caller, decided by the order in which the workers finish:
  the failure carries the exceptions of all failed tasks, in task order.
\<close>

fun pool_map :: "('a \<Rightarrow> py_error + 'b) \<Rightarrow> 'a list \<Rightarrow> py_error list + 'b list" where
  "pool_map f [] = Inr []"
| "pool_map f (x # xs) =
     (case (f x, pool_map f xs) of
        (Inr y, Inr ys) \<Rightarrow> Inr (y # ys)
      | (Inr y, Inl es) \<Rightarrow> Inl es
      | (Inl e, Inr ys) \<Rightarrow> Inl [e]
      | (Inl e, Inl es) \<Rightarrow> Inl (e # es))"

text \<open>
  The constructor takes the smaller of the requested count and the host's processor count;
  \<open>multiprocessing.Pool\<close> raises ValueError for a count below one.
\<close>

definition new_parallel_processor :: "int \<Rightarrow> nat \<Rightarrow> py_error + nat" where
  "new_parallel_processor num_processes cpu_count =
     (let n = min num_processes (int cpu_count)
      in if n < 1 then Inl ValueError else Inr (nat n))"

definition process_symbols ::
  "nat \<Rightarrow> numlib \<Rightarrow> config \<Rightarrow> SymbolData list \<Rightarrow> prices \<Rightarrow> py_error list + result list" where
  "process_symbols num_processes lib cfg symbol_data_list new_prices =
     (case array_split symbol_data_list num_processes of
        Inl e \<Rightarrow> Inl [e]
      | Inr chunks \<Rightarrow>
          (case pool_map (\<lambda>chunk. process_chunk lib cfg chunk new_prices) chunks of
             Inl es \<Rightarrow> Inl es
           | Inr results \<Rightarrow> Inr (concat results)))"

text \<open>
  \<open>DataStreamManager.process_data\<close>: through the pool when a parallel processor was
  configured (its worker count is given), in the caller's thread otherwise.
\<close>

definition manager_process_data ::
  "nat option \<Rightarrow> numlib \<Rightarrow> config \<Rightarrow> SymbolData list \<Rightarrow> prices \<Rightarrow> py_error list + result list" where
  "manager_process_data parallel_processor lib cfg symbol_data_list new_prices =
     (case parallel_processor of
        Some num_processes \<Rightarrow> process_symbols num_processes lib cfg symbol_data_list new_prices
      | None \<Rightarrow>
          (case process_sequential lib cfg symbol_data_list new_prices of
             Inl e \<Rightarrow> Inl [e]
           | Inr results \<Rightarrow> Inr results))"

section \<open>Trend and alert tracker\<close>

record TrendState =
  last_action :: "string option"
  extreme_price :: "fval option"
  day_high :: "fval option"
  day_low :: "fval option"

text \<open>The two kinds of line the tracker writes to the log, with the values they carry.\<close>

datatype log_record =
    TrendChange string string string fval fval fval
  | Alert string fval fval string "nat option" fval int fval

text \<open>
  The state of the symbol manager and the log written so far; the dictionary of series
  keeps its insertion order.  A method that raises has already made its earlier
  assignments, so every operation returns the state it reached together with the
  exception, if any.
\<close>

record manager =
  symbols :: "string set"
  symbol_data :: "(string \<times> SymbolData) list"
  price_trends :: "string \<rightharpoonup> TrendState"
  last_processed_price :: "string \<rightharpoonup> fval"
  log_records :: "log_record list"

text \<open>\<open>SymbolDataManager.__init__\<close>\<close>

definition new_manager :: "string set \<Rightarrow> manager" where
  "new_manager smbs =
     \<lparr>symbols = smbs,
      symbol_data = [],
      price_trends = (\<lambda>s. if s \<in> smbs
         then Some \<lparr>last_action = None, extreme_price = None, day_high = None, day_low = None\<rparr>
         else None),
      last_processed_price = Map.empty,
      log_records = []\<rparr>"

text \<open>
  The trend-change line formats the previous action, the extreme price and the day's high
  and low; a format specification applied to \<open>None\<close> raises TypeError.
\<close>

definition trend_change_line :: "string \<Rightarrow> TrendState \<Rightarrow> string \<Rightarrow> py_error + log_record" where
  "trend_change_line smb current_trend new_action =
     (case (last_action current_trend, extreme_price current_trend,
            day_high current_trend, day_low current_trend) of
        (Some prev, Some ext, Some hi, Some lo) \<Rightarrow> Inr (TrendChange smb prev new_action ext hi lo)
      | _ \<Rightarrow> Inl TypeError)"

definition alert_line :: "string \<Rightarrow> result \<Rightarrow> enrichment \<Rightarrow> TrendState \<Rightarrow> py_error + log_record" where
  "alert_line smb r e current_trend =
     (case (zscore_trend e, extreme_price current_trend) of
        (Some zt, Some ext) \<Rightarrow>
          Inr (Alert smb (latest_price r) (zscore r) (action e) (samples_ago e) zt (lambda e) ext)
      | _ \<Rightarrow> Inl TypeError)"

text \<open>\<open>StreamProcessor.log_alert\<close>\<close>

definition log_alert :: "manager \<Rightarrow> result \<Rightarrow> manager \<times> py_error option" where
  "log_alert st r =
     (case enriched r of
        None \<Rightarrow> (st, Some KeyError)
      | Some e \<Rightarrow>
          (case price_trends st (e_symbol e) of
             None \<Rightarrow> (st, Some KeyError)
           | Some current_trend \<Rightarrow>
               (let smb = e_symbol e;
                    changed = (last_action current_trend \<noteq> Some (action e));
                    announce =
                      (if changed \<and> extreme_price current_trend \<noteq> None
                       then (case trend_change_line smb current_trend (action e) of
                               Inl err \<Rightarrow> Inl err
                             | Inr line \<Rightarrow> Inr [line])
                       else Inr [])
                in case announce of
                     Inl err \<Rightarrow> (st, Some err)
                   | Inr lines \<Rightarrow>
                       (let trend = (if changed
                                     then current_trend\<lparr>extreme_price := Some (latest_price r),
                                                        last_action := Some (action e)\<rparr>
                                     else current_trend);
                            st1 = st\<lparr>price_trends := (price_trends st)(smb \<mapsto> trend),
                                     log_records := log_records st @ lines\<rparr>
                        in case alert_line smb r e trend of
                             Inl err \<Rightarrow> (st1, Some err)
                           | Inr line \<Rightarrow>
                               (st1\<lparr>log_records := log_records st1 @ [line]\<rparr>, None)))))"

text \<open>
  \<open>SymbolDataManager.update_price_trends\<close>, which no caller invokes: the tracker update
  with the extension of the extreme price and of the day's range.
\<close>

definition update_price_trends :: "manager \<Rightarrow> string \<Rightarrow> fval \<Rightarrow> string \<Rightarrow> manager \<times> py_error option" where
  "update_price_trends st smb cur act =
     (case price_trends st smb of
        None \<Rightarrow> (st, Some KeyError)
      | Some trend_data \<Rightarrow>
          (let t1 =
                 (if last_action trend_data = Some act then
                    (if act = ''buy'' then
                       (if extreme_price trend_data = None \<or> flt cur (the (extreme_price trend_data))
                        then trend_data\<lparr>extreme_price := Some cur\<rparr> else trend_data)
                     else if act = ''sell'' then
                       (if extreme_price trend_data = None \<or> fgt cur (the (extreme_price trend_data))
                        then trend_data\<lparr>extreme_price := Some cur\<rparr> else trend_data)
                     else trend_data)
                  else trend_data\<lparr>last_action := Some act, extreme_price := Some cur\<rparr>);
               t2 = (if day_high t1 = None \<or> fgt cur (the (day_high t1))
                     then t1\<lparr>day_high := Some cur\<rparr> else t1);
               t3 = (if day_low t2 = None \<or> flt cur (the (day_low t2))
                     then t2\<lparr>day_low := Some cur\<rparr> else t2)
           in (st\<lparr>price_trends := (price_trends st)(smb \<mapsto> t3)\<rparr>, None)))"

section \<open>Routing results into the tracker\<close>

text \<open>
  The condition under which \<open>StreamProcessor.process_data\<close> calls \<open>log_alert\<close>;
  \<open>result.get('zscore_trend')\<close> is \<open>None\<close> for a missing key and for a stored \<open>None\<close>.
\<close>

definition alert_condition :: "config \<Rightarrow> result \<Rightarrow> bool" where
  "alert_condition cfg r =
     (let zt = (case enriched r of None \<Rightarrow> None | Some e \<Rightarrow> zscore_trend e);
          sigma = get_or (sigma_thresh cfg) 30;
          trend_thresh = get_or (zscore_trend_thresh cfg) 2
      in abs_gt (zscore r) sigma \<and>
         (case zt of None \<Rightarrow> True | Some t \<Rightarrow> abs_gt t trend_thresh))"

text \<open>The body of the loop over the results: \<open>result['symbol']\<close> raises KeyError on a
  result without enrichment.\<close>

definition route_result :: "config \<Rightarrow> manager \<Rightarrow> result \<Rightarrow> manager \<times> py_error option" where
  "route_result cfg st r =
     (case enriched r of
        None \<Rightarrow> (st, Some KeyError)
      | Some e \<Rightarrow>
          (let (st1, err) = (if alert_condition cfg r then log_alert st r else (st, None))
           in case err of
                Some x \<Rightarrow> (st1, Some x)
              | None \<Rightarrow>
                  (st1\<lparr>last_processed_price :=
                         (last_processed_price st1)(e_symbol e \<mapsto> latest_price r)\<rparr>, None)))"

fun route_results :: "config \<Rightarrow> manager \<Rightarrow> result list \<Rightarrow> manager \<times> py_error option" where
  "route_results cfg st [] = (st, None)"
| "route_results cfg st (r # rs) =
     (case route_result cfg st r of
        (st1, Some x) \<Rightarrow> (st1, Some x)
      | (st1, None) \<Rightarrow> route_results cfg st1 rs)"

text \<open>
  \<open>StreamProcessor.process_data\<close> with the manager's \<open>process_data\<close> as processor.  The
  exception of a failed pool is the first of the exceptions it carries in this model.
\<close>

definition stream_process_data ::
  "nat option \<Rightarrow> numlib \<Rightarrow> config \<Rightarrow> manager \<Rightarrow> prices \<Rightarrow> manager \<times> py_error option" where
  "stream_process_data parallel_processor lib cfg st new_prices =
     (let symbol_data_list =
            List.map_filter (\<lambda>(smb, _). map_of (symbol_data st) smb) new_prices
      in case manager_process_data parallel_processor lib cfg symbol_data_list new_prices of
           Inl es \<Rightarrow> (st, Some (hd es))
         | Inr results \<Rightarrow> route_results cfg st results)"


subsection \<open>A concrete run\<close>

text \<open>
  A manager tracking one symbol, before any alert, and detection results for that symbol
  with z-score 5 under the thresholds of \<open>example_config\<close> (sigma 3, trend 2 by default).
\<close>

definition tracking :: manager where
  "tracking = (new_manager {''AAPL''})\<lparr>symbol_data := [(''AAPL'', example_series)]\<rparr>"

definition example_result :: "string \<Rightarrow> fval \<Rightarrow> fval option \<Rightarrow> result" where
  "example_result act p zt =
     \<lparr>zscore = Fin 5, alert = True, latest_price = p,
      enriched = Some \<lparr>e_symbol = ''AAPL'', num_samples = 3, lambda = 48, action = act,
         price = Fin 98, current_price = p, samples_ago = Some 1, zscore_trend = zt,
         zscore_trend_alert = (case zt of None \<Rightarrow> False | Some t \<Rightarrow> abs_gt t 2)\<rparr>\<rparr>"

section \<open>Baseline calibrator\<close>

text \<open>\<open>numpy.mean\<close> and \<open>numpy.std\<close> (the population standard deviation): NaN for an
  empty array and for an array that holds a NaN.\<close>

fun fin_val :: "fval \<Rightarrow> real" where
  "fin_val (Fin a) = a"
| "fin_val NaN = 0"

definition np_mean :: "fval list \<Rightarrow> fval" where
  "np_mean xs =
     (if xs = [] \<or> (\<exists>x \<in> set xs. isnan x) then NaN
      else Fin (sum_list (map fin_val xs) / real (length xs)))"

definition np_std :: "fval list \<Rightarrow> fval" where
  "np_std xs =
     (if xs = [] \<or> (\<exists>x \<in> set xs. isnan x) then NaN
      else (let m = sum_list (map fin_val xs) / real (length xs)
            in Fin (sqrt (sum_list (map (\<lambda>x. (fin_val x - m)\<^sup>2) xs) / real (length xs)))))"

text \<open>Dictionary assignment and deletion on an insertion-ordered dictionary.\<close>

fun dict_set :: "('k \<times> 'v) list \<Rightarrow> 'k \<Rightarrow> 'v \<Rightarrow> ('k \<times> 'v) list" where
  "dict_set [] k v = [(k, v)]"
| "dict_set ((k', v') # kvs) k v =
     (if k' = k then (k, v) # kvs else (k', v') # dict_set kvs k v)"

definition dict_del :: "('k \<times> 'v) list \<Rightarrow> 'k \<Rightarrow> ('k \<times> 'v) list" where
  "dict_del kvs k = filter (\<lambda>(k', _). k' \<noteq> k) kvs"

text \<open>The constructor of \<open>SymbolData\<close> with its defaults and \<open>__post_init__\<close>.\<close>

definition new_symbol_data :: "string \<Rightarrow> (nat \<times> fval) list \<Rightarrow> SymbolData" where
  "new_symbol_data smb df =
     \<lparr>symbol = smb, historical_data = df, baseline_prices = None,
      baseline_mean = Fin 0, baseline_std = Fin 1,
      full_prices = map snd df, timeframe = ''1Min''\<rparr>"

text \<open>
  The loop of \<open>initialize_data\<close> over the fetcher's result: a series is created for
  every symbol whose frame is not empty.
\<close>

fun load_history :: "manager \<Rightarrow> (string \<times> (nat \<times> fval) list) list \<Rightarrow> manager" where
  "load_history st [] = st"
| "load_history st ((smb, df) # rest) =
     load_history
       (if df \<noteq> []
        then st\<lparr>symbol_data := dict_set (symbol_data st) smb (new_symbol_data smb df)\<rparr>
        else st)
       rest"

text \<open>
  One iteration of the loop of \<open>initialize_symbol_data\<close>: the series as the iteration
  leaves it, and whether the symbol was added to \<open>symbols_to_remove\<close>.  The baseline
  session is the last but one of the valid trading days of the window.
\<close>

definition calibrate_symbol :: "nat list \<Rightarrow> SymbolData \<Rightarrow> SymbolData \<times> bool" where
  "calibrate_symbol valid_days data =
     (let df = historical_data data
      in if df = [] \<or> length df < 2 then (data, True)
         else
           (let last_valid_day =
                  (if length valid_days > 1
                   then Some (valid_days ! (length valid_days - 2)) else None)
            in case last_valid_day of
                 None \<Rightarrow> (data, True)
               | Some day \<Rightarrow>
                   (let baseline = map snd (filter (\<lambda>(d, _). d = day) df)
                    in if length baseline < 2 then (data, True)
                       else
                         (let mean = np_mean baseline;
                              std = np_std baseline;
                              data1 = data\<lparr>baseline_prices := Some baseline,
                                           baseline_mean := mean,
                                           baseline_std := std,
                                           full_prices := map snd df\<rparr>;
                              last_price = (if length baseline > 0
                                            then Some (last baseline) else None)
                          in if is_zero std \<or> isnan std \<or> last_price = None
                                \<or> isnan (the last_price)
                             then (data1, True)
                             else
                               (let baseline_zscore = fdiv (fsub (the last_price) mean) std
                                in if isnan baseline_zscore \<or> isinf baseline_zscore
                                   then (data1, True)
                                   else (data1, False))))))"

fun calibrate_all ::
  "nat list \<Rightarrow> (string \<times> SymbolData) list \<Rightarrow> (string \<times> SymbolData) list \<times> string list" where
  "calibrate_all valid_days [] = ([], [])"
| "calibrate_all valid_days ((smb, data) # rest) =
     (let (data1, remove) = calibrate_symbol valid_days data;
          (items, symbols_to_remove) = calibrate_all valid_days rest
      in ((smb, data1) # items,
          (if remove then smb # symbols_to_remove else symbols_to_remove)))"

fun remove_symbols :: "manager \<Rightarrow> string list \<Rightarrow> manager" where
  "remove_symbols st [] = st"
| "remove_symbols st (smb # rest) =
     remove_symbols
       (st\<lparr>symbol_data := (if map_of (symbol_data st) smb \<noteq> None
                             then dict_del (symbol_data st) smb else symbol_data st),
           symbols := (if smb \<in> symbols st then symbols st - {smb} else symbols st)\<rparr>)
       rest"

definition initialize_symbol_data :: "nat list \<Rightarrow> manager \<Rightarrow> manager" where
  "initialize_symbol_data valid_days st =
     (let (items, symbols_to_remove) = calibrate_all valid_days (symbol_data st)
      in remove_symbols (st\<lparr>symbol_data := items\<rparr>) symbols_to_remove)"

text \<open>
  \<open>initialize_data\<close>, given what the calendar and the fetcher return: the valid trading
  days of the resolved window and the per-symbol frames of the symbols whose fetch
  succeeded.
\<close>

definition initialize_data :: "manager \<Rightarrow> nat list \<Rightarrow> (string \<times> (nat \<times> fval) list) list \<Rightarrow> manager" where
  "initialize_data st valid_days fetched =
     initialize_symbol_data valid_days (load_history st fetched)"

text \<open>The closes of the baseline session of a series, as \<open>calibrate_symbol\<close> selects them.\<close>

definition baseline_of :: "nat list \<Rightarrow> SymbolData \<Rightarrow> fval list" where
  "baseline_of valid_days data =
     (if length valid_days > 1
      then map snd (filter (\<lambda>(d, _). d = valid_days ! (length valid_days - 2))
                           (historical_data data))
      else [])"

subsection \<open>A concrete calibration\<close>

text \<open>
  Three symbols over the trading days 2, 3 and 4, the baseline session being day 3:
  AAPL with two closes on day 3, IBM with a single row, MSFT with an empty frame.
\<close>

definition example_history :: "(string \<times> (nat \<times> fval) list) list" where
  "example_history =
     [(''AAPL'', [(2, Fin 10), (3, Fin 11), (3, Fin 13), (4, Fin 12)]),
      (''IBM'', [(3, Fin 5)]),
      (''MSFT'', [])]"

definition example_calibration :: manager where
  "example_calibration =
     initialize_data (new_manager {''AAPL'', ''IBM'', ''MSFT''}) [2, 3, 4] example_history"

section \<open>Historical fetcher\<close>












subsection \<open>A concrete server\<close>


section \<open>Properties of the anomaly detector\<close>

lemma last_sorted_Max: "sorted xs \<Longrightarrow> xs \<noteq> [] \<Longrightarrow> last xs = Max (set (xs::nat list))"
proof (induction xs)
  case Nil then show ?case by simp
next
  case (Cons a xs)
  show ?case
  proof (cases "xs = []")
    case True then show ?thesis by simp
  next
    case False
    with Cons have "last xs = Max (set xs)" by simp
    moreover have "a \<le> Max (set xs)" using Cons.prems False
      by (metis last_in_set calculation sorted_simps(2))
    ultimately show ?thesis using False by (simp add: max_def)
  qed
qed

lemma marker_col_ok:
  assumes "\<forall>i \<in> set idx. i < length cs" "distinct idx"
  shows "marker_col cs idx = Inr (map (\<lambda>i. if i \<in> set idx then cs ! i else NaN) [0..<length cs])"
  using assms by (simp add: marker_col_def)

lemma dropna_marker:
  assumes "\<forall>i \<in> set idx. i < length cs \<and> \<not> isnan (cs ! i)"
  shows "dropna_index (map (\<lambda>i. if i \<in> set idx then cs ! i else NaN) [0..<length cs])
         = filter (\<lambda>i. i \<in> set idx) [0..<length cs]"
  using assms by (auto simp: dropna_index_def split: if_splits intro!: filter_cong)

lemma filter_idx_set:
  assumes "\<forall>i \<in> set idx. i < n"
  shows "set (filter (\<lambda>i. i \<in> set idx) [0..<n]) = set idx"
  using assms by auto

lemma filter_idx_sorted: "sorted (filter (\<lambda>i. i \<in> set idx) [0..<n])"
  by (simp add: sorted_wrt_filter)

lemma filter_idx_empty:
  assumes "\<forall>i \<in> set idx. i < n"
  shows "(filter (\<lambda>i. i \<in> set idx) [0..<n] = []) = (idx = [])"
  using filter_idx_set[OF assms] by (metis set_empty)

lemma filter_idx_last:
  assumes "\<forall>i \<in> set idx. i < n" "idx \<noteq> []"
  shows "last (filter (\<lambda>i. i \<in> set idx) [0..<n]) = Max (set idx)"
  using last_sorted_Max[OF filter_idx_sorted, of idx n] filter_idx_empty[OF assms(1)] filter_idx_set[OF assms(1)] assms(2)
  by simp

lemma get_last_action_markers:
  assumes pk: "\<forall>i \<in> set pk. i < length cs \<and> \<not> isnan (cs ! i)"
      and tr: "\<forall>i \<in> set tr. i < length cs \<and> \<not> isnan (cs ! i)"
  shows "get_last_action \<lparr>c = cs,
            peaks = map (\<lambda>i. if i \<in> set pk then cs ! i else NaN) [0..<length cs],
            troughs = map (\<lambda>i. if i \<in> set tr then cs ! i else NaN) [0..<length cs]\<rparr> =
         (if tr = [] \<and> pk = [] then \<lparr>la_type = ''None'', la_price = Fin 0, la_samples_ago = None\<rparr>
          else if pk \<noteq> [] \<and> (tr = [] \<or> Max (set pk) > Max (set tr))
          then \<lparr>la_type = ''Sell'', la_price = cs ! Max (set pk), la_samples_ago = Some (length cs - Max (set pk) - 1)\<rparr>
          else \<lparr>la_type = ''Buy'', la_price = cs ! Max (set tr), la_samples_ago = Some (length cs - Max (set tr) - 1)\<rparr>)"
proof -
  have p1: "\<forall>i \<in> set pk. i < length cs" and t1: "\<forall>i \<in> set tr. i < length cs" using pk tr by auto
  define P where "P = dropna_index (map (\<lambda>i. if i \<in> set pk then cs ! i else NaN) [0..<length cs])"
  define T where "T = dropna_index (map (\<lambda>i. if i \<in> set tr then cs ! i else NaN) [0..<length cs])"
  have Pe: "(P = []) = (pk = [])" and Te: "(T = []) = (tr = [])"
    unfolding P_def T_def by (simp_all only: dropna_marker[OF pk] dropna_marker[OF tr] filter_idx_empty[OF p1] filter_idx_empty[OF t1])
  have Pl: "pk \<noteq> [] \<Longrightarrow> last P = Max (set pk)" and Tl: "tr \<noteq> [] \<Longrightarrow> last T = Max (set tr)"
    unfolding P_def T_def dropna_marker[OF pk] dropna_marker[OF tr]
    using filter_idx_last[OF p1] filter_idx_last[OF t1] by blast+
  have "get_last_action \<lparr>c = cs,
            peaks = map (\<lambda>i. if i \<in> set pk then cs ! i else NaN) [0..<length cs],
            troughs = map (\<lambda>i. if i \<in> set tr then cs ! i else NaN) [0..<length cs]\<rparr> =
        (if T = [] \<and> P = [] then \<lparr>la_type = ''None'', la_price = Fin 0, la_samples_ago = None\<rparr>
         else if P \<noteq> [] \<and> (T = [] \<or> last P > last T)
          then \<lparr>la_type = ''Sell'', la_price = cs ! last P, la_samples_ago = Some (length cs - last P - 1)\<rparr>
          else \<lparr>la_type = ''Buy'', la_price = cs ! last T, la_samples_ago = Some (length cs - last T - 1)\<rparr>)"
    unfolding get_last_action_def P_def T_def by (simp add: Let_def del: set_upt)
  also have "\<dots> = (if tr = [] \<and> pk = [] then \<lparr>la_type = ''None'', la_price = Fin 0, la_samples_ago = None\<rparr>
          else if pk \<noteq> [] \<and> (tr = [] \<or> Max (set pk) > Max (set tr))
          then \<lparr>la_type = ''Sell'', la_price = cs ! Max (set pk), la_samples_ago = Some (length cs - Max (set pk) - 1)\<rparr>
          else \<lparr>la_type = ''Buy'', la_price = cs ! Max (set tr), la_samples_ago = Some (length cs - Max (set tr) - 1)\<rparr>)"
  proof (cases "pk = []")
    case True
    then show ?thesis using Pe Te Tl by (cases "tr = []") simp_all
  next
    case False
    then show ?thesis using Pe Te Tl Pl by (cases "tr = []") simp_all
  qed
  finally show ?thesis .
qed

text \<open>
  C5.  With the index arrays that \<open>find_peaks\<close> returned inside the frame, free of duplicates and on
  closes that are numbers, the classified action follows the larger of the last peak index
  and the last trough index: a peak gives Sell, a trough gives Buy, the reference price is
  the close at that index and samples-ago is its distance from the end of the series.
  Without any peak or trough the action is the string None, the reference price is 0.0
  and samples-ago is undefined.
\<close>

theorem classified_action:
  assumes "prices = full_prices d @ [p]"
      and "lib (smoothing_coefficient cfg d (length prices)) prices = Inr an"
      and pk: "\<forall>i \<in> set (peaks_idx an). i < length prices \<and> \<not> isnan (prices ! i)"
      and tr: "\<forall>i \<in> set (troughs_idx an). i < length prices \<and> \<not> isnan (prices ! i)"
      and dp: "distinct (peaks_idx an)" and dt: "distinct (troughs_idx an)"
  shows "\<exists>r. process_data lib cfg d p = Inr r \<and>
          (peaks_idx an = [] \<and> troughs_idx an = [] \<longrightarrow>
              p_action r = ''None'' \<and> p_price r = Fin 0 \<and> p_samples_ago r = None) \<and>
          (peaks_idx an \<noteq> [] \<and> (troughs_idx an = [] \<or> Max (set (troughs_idx an)) < Max (set (peaks_idx an))) \<longrightarrow>
              p_action r = ''Sell'' \<and> p_price r = prices ! Max (set (peaks_idx an)) \<and>
              p_samples_ago r = Some (length prices - Max (set (peaks_idx an)) - 1)) \<and>
          (troughs_idx an \<noteq> [] \<and> (peaks_idx an = [] \<or> Max (set (peaks_idx an)) < Max (set (troughs_idx an))) \<longrightarrow>
              p_action r = ''Buy'' \<and> p_price r = prices ! Max (set (troughs_idx an)) \<and>
              p_samples_ago r = Some (length prices - Max (set (troughs_idx an)) - 1))"
proof -
  have p1: "\<forall>i \<in> set (peaks_idx an). i < length prices" and t1: "\<forall>i \<in> set (troughs_idx an). i < length prices"
    using pk tr by auto
  note m1 = marker_col_ok[OF p1 dp] and m2 = marker_col_ok[OF t1 dt]
  define la where "la = get_last_action \<lparr>c = prices,
               peaks = map (\<lambda>i. if i \<in> set (peaks_idx an) then prices ! i else NaN) [0..<length prices],
               troughs = map (\<lambda>i. if i \<in> set (troughs_idx an) then prices ! i else NaN) [0..<length prices]\<rparr>"
  have r: "process_data lib cfg d p = Inr \<lparr>p_lambda = smoothing_coefficient cfg d (length prices),
            p_zscore_trend = (if zscore_trend_col an \<noteq> [] then Some (zscore_trend_col an) else None),
            p_action = la_type la, p_price = la_price la, p_samples_ago = la_samples_ago la\<rparr>"
    unfolding process_data_def Let_def assms(1)[symmetric] la_def by (simp add: assms(2) m1 m2)
  have g: "la = (if troughs_idx an = [] \<and> peaks_idx an = [] then \<lparr>la_type = ''None'', la_price = Fin 0, la_samples_ago = None\<rparr>
          else if peaks_idx an \<noteq> [] \<and> (troughs_idx an = [] \<or> Max (set (peaks_idx an)) > Max (set (troughs_idx an)))
          then \<lparr>la_type = ''Sell'', la_price = prices ! Max (set (peaks_idx an)), la_samples_ago = Some (length prices - Max (set (peaks_idx an)) - 1)\<rparr>
          else \<lparr>la_type = ''Buy'', la_price = prices ! Max (set (troughs_idx an)), la_samples_ago = Some (length prices - Max (set (troughs_idx an)) - 1)\<rparr>)"
    unfolding la_def by (rule get_last_action_markers[OF pk tr])
  have n: "peaks_idx an = [] \<and> troughs_idx an = [] \<Longrightarrow>
              la_type la = ''None'' \<and> la_price la = Fin 0 \<and> la_samples_ago la = None"
    by (simp add: g)
  have s: "peaks_idx an \<noteq> [] \<and> (troughs_idx an = [] \<or> Max (set (troughs_idx an)) < Max (set (peaks_idx an))) \<Longrightarrow>
              la_type la = ''Sell'' \<and> la_price la = prices ! Max (set (peaks_idx an)) \<and>
              la_samples_ago la = Some (length prices - Max (set (peaks_idx an)) - 1)"
    by (simp add: g)
  have b: "troughs_idx an \<noteq> [] \<and> (peaks_idx an = [] \<or> Max (set (peaks_idx an)) < Max (set (troughs_idx an))) \<Longrightarrow>
              la_type la = ''Buy'' \<and> la_price la = prices ! Max (set (troughs_idx an)) \<and>
              la_samples_ago la = Some (length prices - Max (set (troughs_idx an)) - 1)"
    using order.asym by (auto simp add: g simp del: Max_less_iff)
  show ?thesis unfolding r using n s b by simp
qed


lemma process_crossing:
  "abs_gt (zscore_value d p) (get_or (sigma_thresh cfg) 30) \<Longrightarrow>
   process lib cfg d p =
     (case process_data lib cfg d p of
        Inl e \<Rightarrow> Inl e
      | Inr pd \<Rightarrow> Inr \<lparr>zscore = zscore_value d p, alert = True, latest_price = p,
           enriched = Some \<lparr>e_symbol = symbol d,
                       num_samples = length (full_prices d),
                       lambda = p_lambda pd,
                       action = p_action pd,
                       price = p_price pd,
                       current_price = p,
                       samples_ago = p_samples_ago pd,
                       zscore_trend = (case p_zscore_trend pd of None \<Rightarrow> None | Some col \<Rightarrow> Some (last col)),
                       zscore_trend_alert =
                         (case (case p_zscore_trend pd of None \<Rightarrow> None | Some col \<Rightarrow> Some (last col)) of
                            None \<Rightarrow> False | Some t \<Rightarrow> abs_gt t (get_or (zscore_trend_thresh cfg) 2))\<rparr>\<rparr>)"
  by (cases "zscore_value d p") (simp_all add: process_def Let_def split: sum.splits)



lemmas example_defs = example_lib_def example_series_def example_config_def flat_series_def hourly_series_def

lemma example_process_data:
  "process_data example_lib example_config example_series (Fin (939 / 10)) =
     Inr \<lparr>p_lambda = 48, p_zscore_trend = Some [Fin 0, Fin (5 / 2)], p_action = ''Buy'',
          p_price = Fin 98, p_samples_ago = Some 1\<rparr>"
  by (simp add: example_defs process_data_def smoothing_coefficient_def get_or_def default_lambda_multipliers_def
    py_round_def marker_col_def get_last_action_def dropna_index_def Let_def upt_conv_Cons)

lemma example_zscore:
  "zscore_value example_series (Fin (939 / 10)) = Fin (- (305 / 100))"
  by (simp add: zscore_value_def example_series_def)

lemma example_process:
  "process example_lib example_config example_series (Fin (939 / 10)) =
     Inr \<lparr>zscore = Fin (- (305 / 100)), alert = True, latest_price = Fin (939 / 10),
          enriched = Some \<lparr>e_symbol = ''AAPL'', num_samples = 3, lambda = 48, action = ''Buy'',
             price = Fin 98, current_price = Fin (939 / 10), samples_ago = Some 1,
             zscore_trend = Some (Fin (5 / 2)), zscore_trend_alert = True\<rparr>\<rparr>"
proof -
  have "abs_gt (zscore_value example_series (Fin (939 / 10))) (get_or (sigma_thresh example_config) 30)"
    unfolding example_zscore by (simp add: example_config_def get_or_def)
  from process_crossing[OF this, of example_lib] show ?thesis
    unfolding example_process_data example_zscore
    by (simp add: example_series_def example_config_def get_or_def)
qed





theorem classified_action_witness:
  "(\<exists>r. process_data example_lib example_config example_series (Fin (939 / 10)) = Inr r \<and>
        p_action r = ''Buy'' \<and> p_price r = Fin 98 \<and> p_samples_ago r = Some 1)"
proof -
  define prices where "prices = full_prices example_series @ [Fin (939 / 10)]"
  define an where "an = \<lparr>zscore_trend_col = [Fin 0, Fin (5 / 2)], peaks_idx = [1], troughs_idx = [2]\<rparr>"
  have lib: "example_lib (smoothing_coefficient example_config example_series (length prices)) prices = Inr an"
    by (simp add: an_def example_lib_def)
  have pr: "prices = [Fin 100, Fin 102, Fin 98, Fin (939 / 10)]" by (simp add: prices_def example_defs)
  have an: "peaks_idx an = [1]" "troughs_idx an = [2]" by (simp_all add: an_def)
  have h: "\<forall>i \<in> set (peaks_idx an). i < length prices \<and> \<not> isnan (prices ! i)"
          "\<forall>i \<in> set (troughs_idx an). i < length prices \<and> \<not> isnan (prices ! i)"
          "distinct (peaks_idx an)" "distinct (troughs_idx an)"
    by (simp_all add: an pr)
  from classified_action[where lib=example_lib and cfg=example_config and d=example_series and p="Fin (939 / 10)", OF prices_def lib h] show ?thesis
    by (auto simp: an pr)
qed

section \<open>Properties of the fan-out\<close>










lemma new_parallel_processor_count:
  "new_parallel_processor num_processes cpu_count = Inr n \<Longrightarrow> 1 \<le> n"
  by (auto simp: new_parallel_processor_def Let_def split: if_splits)


section \<open>Properties of the tracker\<close>

lemmas run_defs = tracking_def new_manager_def example_result_def example_config_def get_or_def





lemmas eval_defs = route_result_def alert_condition_def log_alert_def alert_line_def trend_change_line_def
  Let_def run_defs



text \<open>
  C2 on the code.  After a first Buy alert at 100, a second Buy alert at 90 leaves the
  extreme price at 100: \<open>log_alert\<close> has no branch for an unchanged action.  A Sell
  alert at 110 after the first Buy alert raises TypeError while formatting the day's high,
  which \<open>log_alert\<close> never sets, before the extreme price is reset.
\<close>

theorem log_alert_never_extends_extreme_price:
  "(let after = route_results example_config tracking
                  [example_result ''Buy'' (Fin 100) (Some (Fin (5 / 2))),
                   example_result ''Buy'' (Fin 90) (Some (Fin (5 / 2)))]
    in snd after = None \<and>
       price_trends (fst after) ''AAPL'' =
         Some \<lparr>last_action = Some ''Buy'', extreme_price = Some (Fin 100),
               day_high = None, day_low = None\<rparr> \<and>
       log_records (fst after) =
         [Alert ''AAPL'' (Fin 100) (Fin 5) ''Buy'' (Some 1) (Fin (5 / 2)) 48 (Fin 100),
          Alert ''AAPL'' (Fin 90) (Fin 5) ''Buy'' (Some 1) (Fin (5 / 2)) 48 (Fin 100)]) \<and>
   (let after = route_results example_config tracking
                  [example_result ''Buy'' (Fin 100) (Some (Fin (5 / 2))),
                   example_result ''Sell'' (Fin 110) (Some (Fin (5 / 2)))]
    in snd after = Some TypeError \<and>
       price_trends (fst after) ''AAPL'' =
         Some \<lparr>last_action = Some ''Buy'', extreme_price = Some (Fin 100),
               day_high = None, day_low = None\<rparr>)"
  by (simp add: eval_defs)

text \<open>
  C3 on the code.  After a corroborated alert at 100 the day's high and low are still
  unset: only \<open>update_price_trends\<close>, which is never called, assigns them.
\<close>

theorem log_alert_never_sets_day_range:
  "(let after = route_results example_config tracking
                  [example_result ''Buy'' (Fin 100) (Some (Fin (5 / 2)))]
    in snd after = None \<and>
       log_records (fst after) =
         [Alert ''AAPL'' (Fin 100) (Fin 5) ''Buy'' (Some 1) (Fin (5 / 2)) 48 (Fin 100)] \<and>
       map_option day_high (price_trends (fst after) ''AAPL'') = Some None \<and>
       map_option day_low (price_trends (fst after) ''AAPL'') = Some None)"
  by (simp add: eval_defs)

text \<open>
  The update that is never called does extend the extreme price and the day's range, for
  the lower-case action names it compares with; the detector's names are capitalised.
\<close>

lemma update_price_trends_sibling:
  "(let s1 = fst (update_price_trends tracking ''AAPL'' (Fin 100) ''buy'');
        s2 = fst (update_price_trends s1 ''AAPL'' (Fin 90) ''buy'')
    in price_trends s2 ''AAPL'' =
         Some \<lparr>last_action = Some ''buy'', extreme_price = Some (Fin 90),
               day_high = Some (Fin 100), day_low = Some (Fin 90)\<rparr>) \<and>
   (let s1 = fst (update_price_trends tracking ''AAPL'' (Fin 100) ''Buy'');
        s2 = fst (update_price_trends s1 ''AAPL'' (Fin 90) ''Buy'')
    in price_trends s2 ''AAPL'' =
         Some \<lparr>last_action = Some ''Buy'', extreme_price = Some (Fin 100),
               day_high = Some (Fin 100), day_low = Some (Fin 90)\<rparr>)"
  by (simp add: update_price_trends_def tracking_def new_manager_def Let_def fgt_def)

lemma log_alert_symbol_data: "symbol_data (fst (log_alert st r)) = symbol_data st"
  by (simp add: log_alert_def Let_def split: option.splits sum.splits)

lemma route_result_symbol_data: "symbol_data (fst (route_result cfg st r)) = symbol_data st"
  using log_alert_symbol_data[of st r]
  by (auto simp: route_result_def Let_def split: option.splits prod.splits)

lemma route_results_symbol_data: "symbol_data (fst (route_results cfg st rs)) = symbol_data st"
proof (induction rs arbitrary: st)
  case Nil then show ?case by simp
next
  case (Cons r rs)
  show ?case
  proof (cases "route_result cfg st r")
    case (Pair st1 err)
    with route_result_symbol_data[of cfg st r] have s: "symbol_data st1 = symbol_data st" by simp
    show ?thesis using Pair s Cons.IH[of st1] by (cases err) simp_all
  qed
qed

lemma stream_process_data_symbol_data:
  "symbol_data (fst (stream_process_data par lib cfg st np)) = symbol_data st"
  by (simp add: stream_process_data_def Let_def route_results_symbol_data split: sum.splits)



text \<open>
  C6 on the code.  A tick at 93.9 crosses the sigma threshold and is alerted, and the
  stored close sequence of the symbol still has its three elements: \<open>process_data\<close>
  appends the price to a copy, and nothing calls \<open>append_price\<close>.
\<close>

theorem stored_series_not_extended:
  "(let after = stream_process_data None example_lib example_config tracking
                  [(''AAPL'', Fin (939 / 10))]
    in snd after = None \<and>
       log_records (fst after) =
         [Alert ''AAPL'' (Fin (939 / 10)) (Fin (- (305 / 100))) ''Buy'' (Some 1) (Fin (5 / 2)) 48
            (Fin (939 / 10))] \<and>
       map_option full_prices (map_of (symbol_data tracking) ''AAPL'') = Some [Fin 100, Fin 102, Fin 98] \<and>
       map_option full_prices (map_of (symbol_data (fst after)) ''AAPL'') = Some [Fin 100, Fin 102, Fin 98])"
proof -
  have sd: "map_of (symbol_data tracking) ''AAPL'' = Some example_series" by (simp add: tracking_def)
  have sym: "symbol example_series = ''AAPL''" "full_prices example_series = [Fin 100, Fin 102, Fin 98]"
    by (simp_all add: example_series_def)
  have m: "manager_process_data None example_lib example_config [example_series] [(''AAPL'', Fin (939 / 10))]
     = Inr [\<lparr>zscore = Fin (- (305 / 100)), alert = True, latest_price = Fin (939 / 10),
          enriched = Some \<lparr>e_symbol = ''AAPL'', num_samples = 3, lambda = 48, action = ''Buy'',
             price = Fin 98, current_price = Fin (939 / 10), samples_ago = Some 1,
             zscore_trend = Some (Fin (5 / 2)), zscore_trend_alert = True\<rparr>\<rparr>]"
    by (simp add: manager_process_data_def sym example_process)
  have s: "stream_process_data None example_lib example_config tracking [(''AAPL'', Fin (939 / 10))] =
    route_results example_config tracking [\<lparr>zscore = Fin (- (305 / 100)), alert = True, latest_price = Fin (939 / 10),
          enriched = Some \<lparr>e_symbol = ''AAPL'', num_samples = 3, lambda = 48, action = ''Buy'',
             price = Fin 98, current_price = Fin (939 / 10), samples_ago = Some 1,
             zscore_trend = Some (Fin (5 / 2)), zscore_trend_alert = True\<rparr>\<rparr>]"
    by (simp add: stream_process_data_def List.map_filter_def sd m)
  show ?thesis unfolding s
    by (simp add: route_result_def alert_condition_def log_alert_def alert_line_def
        trend_change_line_def Let_def tracking_def new_manager_def example_config_def get_or_def sym)
qed




section \<open>Properties of the calibrator\<close>

lemma example_loaded:
  "load_history (new_manager {''AAPL'', ''IBM'', ''MSFT''}) example_history =
     (new_manager {''AAPL'', ''IBM'', ''MSFT''})
       \<lparr>symbol_data :=
          [(''AAPL'', new_symbol_data ''AAPL'' [(2, Fin 10), (3, Fin 11), (3, Fin 13), (4, Fin 12)]),
           (''IBM'', new_symbol_data ''IBM'' [(3, Fin 5)])]\<rparr>"
  by (simp add: example_history_def new_manager_def)

lemma calibrate_aapl:
  "calibrate_symbol [2, 3, 4]
      (new_symbol_data ''AAPL'' [(2, Fin 10), (3, Fin 11), (3, Fin 13), (4, Fin 12)]) =
     (\<lparr>symbol = ''AAPL'',
       historical_data = [(2, Fin 10), (3, Fin 11), (3, Fin 13), (4, Fin 12)],
       baseline_prices = Some [Fin 11, Fin 13], baseline_mean = Fin 12, baseline_std = Fin 1,
       full_prices = [Fin 10, Fin 11, Fin 13, Fin 12], timeframe = ''1Min''\<rparr>, False)"
  by (simp add: calibrate_symbol_def new_symbol_data_def np_mean_def np_std_def Let_def)

lemma calibrate_ibm:
  "calibrate_symbol [2, 3, 4] (new_symbol_data ''IBM'' [(3, Fin 5)]) =
     (new_symbol_data ''IBM'' [(3, Fin 5)], True)"
  by (simp add: calibrate_symbol_def new_symbol_data_def Let_def)

text \<open>
  C8 on the code.  Of three requested symbols, AAPL has a baseline and is kept, IBM has a
  single historical row and is removed from the symbol set and from the series, and MSFT,
  whose frame is empty, has no series but is still in the symbol set: \<open>initialize_data\<close>
  skips an empty frame, so the removal loop never sees the symbol.
\<close>

theorem empty_history_symbol_stays_active:
  "symbols example_calibration = {''AAPL'', ''MSFT''} \<and>
   map fst (symbol_data example_calibration) = [''AAPL''] \<and>
   ''IBM'' \<notin> symbols example_calibration \<and>
   map_of (symbol_data example_calibration) ''IBM'' = None \<and>
   ''MSFT'' \<in> symbols example_calibration \<and>
   map_of (symbol_data example_calibration) ''MSFT'' = None"
  unfolding example_calibration_def initialize_data_def example_loaded initialize_symbol_data_def
  by (auto simp add: calibrate_aapl calibrate_ibm new_manager_def dict_del_def)

lemma calibrate_all_items:
  "fst (calibrate_all vd xs) = map (\<lambda>(s, d). (s, fst (calibrate_symbol vd d))) xs"
  by (induction xs) (auto simp: Let_def split: prod.splits)

lemma calibrate_all_removed:
  "snd (calibrate_all vd xs) = map fst (filter (\<lambda>(s, d). snd (calibrate_symbol vd d)) xs)"
proof (induction xs)
  case Nil then show ?case by simp
next
  case (Cons a xs)
  then show ?case by (cases a) (simp add: Let_def case_prod_beta)
qed

lemma map_of_dict_del: "map_of (dict_del kvs k) s = (if s = k then None else map_of kvs s)"
  by (induction kvs) (auto simp: dict_del_def)

lemma remove_symbols_symbols: "symbols (remove_symbols st rm) = symbols st - set rm"
  by (induction rm arbitrary: st) auto

lemma remove_symbols_data:
  "map_of (symbol_data (remove_symbols st rm)) s =
     (if s \<in> set rm then None else map_of (symbol_data st) s)"
proof (induction rm arbitrary: st)
  case Nil then show ?case by simp
next
  case (Cons k rm)
  show ?case by (auto simp: Cons.IH map_of_dict_del)
qed

lemma map_of_calibrated:
  "map_of (map (\<lambda>(s, d). (s, fst (calibrate_symbol vd d))) xs) s =
     map_option (\<lambda>d. fst (calibrate_symbol vd d)) (map_of xs s)"
  by (induction xs) auto

lemma removed_iff:
  assumes "distinct (map fst xs)"
  shows "s \<in> set (map fst (filter (\<lambda>(s, d). snd (calibrate_symbol vd d)) xs)) \<longleftrightarrow>
         (\<exists>d. map_of xs s = Some d \<and> snd (calibrate_symbol vd d))"
  using assms by (induction xs) (auto simp: rev_image_eqI)

lemma initialize_symbol_data_result:
  assumes "distinct (map fst (symbol_data st))"
  shows "map_of (symbol_data (initialize_symbol_data vd st)) s =
           (case map_of (symbol_data st) s of
              None \<Rightarrow> None
            | Some d \<Rightarrow> if snd (calibrate_symbol vd d) then None
                        else Some (fst (calibrate_symbol vd d)))"
    and "s \<in> symbols (initialize_symbol_data vd st) \<longleftrightarrow>
           s \<in> symbols st \<and>
           \<not> (\<exists>d. map_of (symbol_data st) s = Some d \<and> snd (calibrate_symbol vd d))"
proof -
  obtain items rm where c: "calibrate_all vd (symbol_data st) = (items, rm)" by force
  have i: "items = map (\<lambda>(s, d). (s, fst (calibrate_symbol vd d))) (symbol_data st)"
    using calibrate_all_items[of vd "symbol_data st"] c by simp
  have r: "rm = map fst (filter (\<lambda>(s, d). snd (calibrate_symbol vd d)) (symbol_data st))"
    using calibrate_all_removed[of vd "symbol_data st"] c by simp
  have m: "s \<in> set rm \<longleftrightarrow> (\<exists>d. map_of (symbol_data st) s = Some d \<and> snd (calibrate_symbol vd d))"
    unfolding r by (rule removed_iff[OF assms])
  show "map_of (symbol_data (initialize_symbol_data vd st)) s =
           (case map_of (symbol_data st) s of
              None \<Rightarrow> None
            | Some d \<Rightarrow> if snd (calibrate_symbol vd d) then None
                        else Some (fst (calibrate_symbol vd d)))"
    unfolding initialize_symbol_data_def c
    by (simp add: remove_symbols_data m) (auto simp: i map_of_calibrated split: option.splits)
  show "s \<in> symbols (initialize_symbol_data vd st) \<longleftrightarrow>
           s \<in> symbols st \<and>
           \<not> (\<exists>d. map_of (symbol_data st) s = Some d \<and> snd (calibrate_symbol vd d))"
    unfolding initialize_symbol_data_def c
    by (simp add: remove_symbols_symbols m)
qed

lemma calibrate_symbol_drop_iff:
  "snd (calibrate_symbol vd d) \<longleftrightarrow>
     length (historical_data d) < 2 \<or>
     length (baseline_of vd d) < 2 \<or>
     is_zero (np_std (baseline_of vd d)) \<or> isnan (np_std (baseline_of vd d)) \<or>
     isnan (last (baseline_of vd d)) \<or>
     isnan (fdiv (fsub (last (baseline_of vd d)) (np_mean (baseline_of vd d))) (np_std (baseline_of vd d))) \<or>
     isinf (fdiv (fsub (last (baseline_of vd d)) (np_mean (baseline_of vd d))) (np_std (baseline_of vd d)))"
  by (auto simp: calibrate_symbol_def baseline_of_def Let_def split: option.splits if_splits)

lemma dict_set_keys: "fst ` set (dict_set kvs k v) = insert k (fst ` set kvs)"
proof (induction kvs)
  case Nil then show ?case by simp
next
  case (Cons a kvs)
  then show ?case by (cases a) (auto split: if_splits)
qed

lemma dict_set_distinct: "distinct (map fst kvs) \<Longrightarrow> distinct (map fst (dict_set kvs k v))"
proof (induction kvs)
  case Nil then show ?case by simp
next
  case (Cons a kvs)
  then show ?case using dict_set_keys[of kvs k v] by (cases a) (auto split: if_splits)
qed

lemma load_history_distinct:
  "distinct (map fst (symbol_data st)) \<Longrightarrow> distinct (map fst (symbol_data (load_history st fetched)))"
proof (induction fetched arbitrary: st)
  case Nil then show ?case by simp
next
  case (Cons a fetched)
  show ?case
  proof (cases a)
    case (Pair smb df)
    show ?thesis using Cons.prems unfolding Pair
      by (auto intro!: Cons.IH simp: dict_set_distinct)
  qed
qed

lemma load_history_symbols: "symbols (load_history st fetched) = symbols st"
proof (induction fetched arbitrary: st)
  case Nil then show ?case by simp
next
  case (Cons a fetched)
  show ?case by (cases a) (simp add: Cons.IH)
qed

lemma load_history_skips_empty:
  "map_of (symbol_data st) s = None \<Longrightarrow> \<forall>df. (s, df) \<in> set fetched \<longrightarrow> df = [] \<Longrightarrow>
   map_of (symbol_data (load_history st fetched)) s = None"
proof (induction fetched arbitrary: st)
  case Nil then show ?case by simp
next
  case (Cons a fetched)
  obtain smb df where a: "a = (smb, df)" by force
  have k: "map_of (dict_set kvs k v) s = (if s = k then Some v else map_of kvs s)" for kvs k and v :: SymbolData
    by (induction kvs) auto
  have "map_of (symbol_data (if df \<noteq> [] then st\<lparr>symbol_data := dict_set (symbol_data st) smb (new_symbol_data smb df)\<rparr> else st)) s = None"
    using Cons.prems a by (auto simp: k)
  then show ?case unfolding a using Cons.prems(2) a by (auto intro!: Cons.IH)
qed

text \<open>A symbol of the set whose fetch failed or returned no rows is never removed.\<close>

lemma unfetched_symbol_stays_active:
  assumes "s \<in> smbs" "\<forall>df. (s, df) \<in> set fetched \<longrightarrow> df = []"
  shows "s \<in> symbols (initialize_data (new_manager smbs) vd fetched) \<and>
         map_of (symbol_data (initialize_data (new_manager smbs) vd fetched)) s = None"
proof -
  let ?st = "load_history (new_manager smbs) fetched"
  have d: "distinct (map fst (symbol_data ?st))"
    by (rule load_history_distinct) (simp add: new_manager_def)
  have n: "map_of (symbol_data ?st) s = None"
    by (rule load_history_skips_empty[OF _ assms(2)]) (simp add: new_manager_def)
  have m: "s \<in> symbols ?st" using assms(1) by (simp add: load_history_symbols new_manager_def)
  show ?thesis
    unfolding initialize_data_def
    using initialize_symbol_data_result[OF d, where vd=vd and s=s] n m by simp
qed

section \<open>Properties of the fetcher\<close>















end
